theory Spec2Isabelle
  imports Complex_Main "HOL-Library.AList"
begin

section \<open>Comparable-company valuation: the program as HOL functions\<close>

text \<open>
  The program is \<^verbatim>\<open>Comparable-valuation.py\<close>. Python numbers (the provider's ints and
  floats) are modelled as exact reals: rounding and NaN are outside the model. A Python
  string is a list of characters, each read as one code point in U+0000..U+00FF.
  An exception is a value \<open>Inl e\<close> of a sum type; \<open>None\<close> of an option is Python's
  \<^verbatim>\<open>None\<close>.
\<close>

datatype error = TypeError | AttributeError | ZeroDivisionError | EOFError | ProviderError

subsection \<open>Text: \<^verbatim>\<open>re.sub\<close>, \<^verbatim>\<open>lower\<close>, \<^verbatim>\<open>split\<close>\<close>

text \<open>The stopword set of the source, lines 12-17.\<close>

definition STOPWORDS :: "string list" where
  "STOPWORDS =
    [''the'', ''and'', ''a'', ''in'', ''of'', ''for'', ''with'', ''on'', ''at'', ''to'', ''by'',
     ''from'', ''as'', ''that'', ''which'', ''this'', ''these'', ''those'', ''it'', ''is'',
     ''are'', ''be'', ''has'', ''have'', ''was'', ''were'', ''been'', ''being'', ''its'', ''an'',
     ''or'', ''but'', ''also'', ''about'', ''under'', ''over'', ''through'', ''throughout'',
     ''using'', ''utilizing'', ''their'', ''other'']"

text \<open>The character class \<^verbatim>\<open>a-zA-Z\<close>.\<close>

definition is_alpha :: "char \<Rightarrow> bool" where
  "is_alpha c = (let n = (of_char c :: nat) in (65 \<le> n \<and> n \<le> 90) \<or> (97 \<le> n \<and> n \<le> 122))"

text \<open>
  Whitespace as \<^verbatim>\<open>\s\<close> of a str pattern and \<^verbatim>\<open>str.split()\<close> both see it: tab, line feed,
  vertical tab, form feed, carriage return, the separators 28-31, space, U+0085 and U+00A0.
\<close>

definition is_space :: "char \<Rightarrow> bool" where
  "is_space c = (let n = (of_char c :: nat) in
     (9 \<le> n \<and> n \<le> 13) \<or> (28 \<le> n \<and> n \<le> 32) \<or> n = 133 \<or> n = 160)"

text \<open>\<^verbatim>\<open>re.sub(r'[^a-zA-Z\s]', '', description)\<close>: every other character is deleted.\<close>

definition re_sub_nonalpha :: "string \<Rightarrow> string" where
  "re_sub_nonalpha description = filter (\<lambda>c. is_alpha c \<or> is_space c) description"

text \<open>
  \<^verbatim>\<open>str.lower()\<close> on code points below 256: A-Z and the capital letters U+00C0..U+00DE
  (without the multiplication sign U+00D7) move up by 32, everything else stays.
\<close>

definition lower_char :: "char \<Rightarrow> char" where
  "lower_char c = (let n = (of_char c :: nat) in
     if (65 \<le> n \<and> n \<le> 90) \<or> (192 \<le> n \<and> n \<le> 222 \<and> n \<noteq> 215) then char_of (n + 32) else c)"

definition lower :: "string \<Rightarrow> string" where
  "lower s = map lower_char s"

text \<open>
  \<^verbatim>\<open>str.split()\<close> with no argument: maximal runs of non-whitespace characters, in order;
  \<open>cur\<close> is the word being read.
\<close>

fun split_from :: "string \<Rightarrow> string \<Rightarrow> string list" where
  "split_from cur [] = (if cur = [] then [] else [cur])"
| "split_from cur (c # cs) =
     (if is_space c then (if cur = [] then split_from [] cs else cur # split_from [] cs)
      else split_from (cur @ [c]) cs)"

definition split :: "string \<Rightarrow> string list" where
  "split s = split_from [] s"

subsection \<open>\<^verbatim>\<open>extract_keywords\<close>, lines 37-49\<close>

text \<open>The words of the cleaned, lower-cased description (lines 39 and 41).\<close>

definition description_words :: "string \<Rightarrow> string list" where
  "description_words description = split (lower (re_sub_nonalpha description))"

text \<open>
  A description that is \<^verbatim>\<open>None\<close> makes \<^verbatim>\<open>re.sub\<close> raise TypeError. A company name that is
  \<^verbatim>\<open>None\<close> makes \<^verbatim>\<open>company_name.lower()\<close> raise AttributeError, at the first word that is
  not a stopword (the conjunction is evaluated left to right). The result is a list, in
  the order of the description.
\<close>

definition extract_keywords :: "string option \<Rightarrow> string option \<Rightarrow> error + string list" where
  "extract_keywords description company_name =
     (case description of
        None \<Rightarrow> Inl TypeError
      | Some d \<Rightarrow>
          (let words = description_words d in
           case company_name of
             None \<Rightarrow>
               (if filter (\<lambda>word. word \<notin> set STOPWORDS) words = [] then Inr []
                else Inl AttributeError)
           | Some name \<Rightarrow>
               Inr (filter (\<lambda>word. word \<notin> set STOPWORDS \<and> word \<noteq> lower name \<and> length word > 3)
                      words)))"

subsection \<open>\<^verbatim>\<open>keyword_match_percentage\<close>, lines 69-74\<close>

text \<open>
  The guard is on the peer's keywords only; with peer keywords and an empty target list the
  division raises ZeroDivisionError. The overlap is a set, the denominator the length of
  the target list.
\<close>

definition keyword_match_percentage :: "string list \<Rightarrow> string list \<Rightarrow> error + real" where
  "keyword_match_percentage target_keywords peer_keywords =
     (if peer_keywords = [] then Inr 0
      else (let overlap = set target_keywords \<inter> set peer_keywords in
            if length target_keywords = 0 then Inl ZeroDivisionError
            else Inr (real (card overlap) / real (length target_keywords) * 100)))"

subsection \<open>Provider records, output and sequencing\<close>

text \<open>
  What \<^verbatim>\<open>yf.Ticker(t).info\<close> holds, as far as the program reads it. The key
  \<^verbatim>\<open>shortName\<close> is tested for membership (line 24) and read (lines 25 and 63): \<open>None\<close> is
  the key absent, \<open>Some None\<close> the key present with the value \<^verbatim>\<open>None\<close>. Every other key
  is only read with \<^verbatim>\<open>.get(key, None)\<close>, where the absent key and the value \<^verbatim>\<open>None\<close> are
  the same \<open>None\<close>.
\<close>

record info =
  shortName :: "string option option"
  currentPrice :: "real option"
  netIncomeToCommon :: "real option"
  ebitda :: "real option"
  totalRevenue :: "real option"
  marketCap :: "real option"
  sharesOutstanding :: "real option"
  industry :: "string option"
  longBusinessSummary :: "string option"

text \<open>The dictionary built by \<^verbatim>\<open>fetch_metrics_and_description\<close>: all nine keys always exist.\<close>

record metrics =
  Price :: "real option"
  Earnings :: "real option"
  Ebitda :: "real option"
  Revenue :: "real option"
  MarketCap :: "real option"
  SharesOutstanding :: "real option"
  Industry :: "string option"
  Description :: "string option"
  CompanyName :: "string option"

text \<open>
  The market-data provider is a parameter: a ticker (a string, or \<^verbatim>\<open>None\<close> as \<^verbatim>\<open>main\<close>
  can pass it) gives the info record or raises.
\<close>

type_synonym provider = "string option \<Rightarrow> error + info"

text \<open>A spreadsheet cell, and a value of the \<^verbatim>\<open>fair_values\<close> dictionary.\<close>

datatype cell = Null | Num real | Str string

record row =
  Stock :: cell
  Metric :: cell
  Value :: cell

text \<open>One constructor for each \<^verbatim>\<open>print\<close> and \<^verbatim>\<open>input\<close> prompt of the source.\<close>

datatype message =
    EnterTicker
  | FoundStock "string option" string
  | IsThisCorrect
  | CouldNotRetrieve string
  | ErrorFetching string error
  | TargetKeywords "string list"
  | CheckingPeer string "real option" "string option"
  | MatchPercentage string real
  | AddedOnKeywordsAlone string
  | ComparablePE "real list"
  | ComparableEV "real list"
  | Medians "real option" "real option"
  | DataAppended
  | NoSuitableComparables "string option"
  | TargetMetricsListing string metrics
  | FairValuesListing "(string \<times> cell) list"
  | EvEbitdaDifference real real
  | PeDifference real real
  | NoValidStock

text \<open>What a run does to the outside: provider lookups and console output, in order.\<close>

datatype event = Lookup "string option" | Print message

type_synonym 'a io = "event list \<times> (error + 'a)"

definition io_bind :: "'a io \<Rightarrow> ('a \<Rightarrow> 'b io) \<Rightarrow> 'b io" where
  "io_bind m f =
     (case m of
        (ev, Inl e) \<Rightarrow> (ev, Inl e)
      | (ev, Inr x) \<Rightarrow> (case f x of (ev', r) \<Rightarrow> (ev @ ev', r)))"

definition io_print :: "message \<Rightarrow> unit io" where
  "io_print msg = ([Print msg], Inr ())"

definition io_lift :: "error + 'a \<Rightarrow> 'a io" where
  "io_lift r = ([], r)"

text \<open>Python truthiness of a number that may be \<^verbatim>\<open>None\<close>: present and not zero.\<close>

definition truthy :: "real option \<Rightarrow> bool" where
  "truthy v = (case v of None \<Rightarrow> False | Some x \<Rightarrow> x \<noteq> 0)"

subsection \<open>\<^verbatim>\<open>fetch_metrics_and_description\<close>, lines 52-66\<close>

text \<open>No handler: what the provider raises, the function raises.\<close>

definition fetch_metrics_and_description :: "provider \<Rightarrow> string option \<Rightarrow> metrics io" where
  "fetch_metrics_and_description prov ticker =
     ([Lookup ticker],
      case prov ticker of
        Inl e \<Rightarrow> Inl e
      | Inr stock \<Rightarrow>
          Inr \<lparr>Price = currentPrice stock, Earnings = netIncomeToCommon stock,
               Ebitda = ebitda stock, Revenue = totalRevenue stock,
               MarketCap = marketCap stock, SharesOutstanding = sharesOutstanding stock,
               Industry = industry stock, Description = longBusinessSummary stock,
               CompanyName = (case shortName stock of None \<Rightarrow> None | Some v \<Rightarrow> v)\<rparr>)"

subsection \<open>\<^verbatim>\<open>find_comparables\<close>, lines 77-113\<close>

text \<open>
  The \<^verbatim>\<open>if\<close>/\<^verbatim>\<open>elif\<close> of lines 103-111. The conjunction is evaluated left to right: with a
  truthy peer market cap the subtraction raises TypeError on a target market cap that is
  \<^verbatim>\<open>None\<close>, and the division raises ZeroDivisionError on one that is zero.
\<close>

datatype decision = Primary | Fallback | Rejected

definition acceptance_rule ::
  "real option \<Rightarrow> real option \<Rightarrow> real \<Rightarrow> real \<Rightarrow> real \<Rightarrow> real \<Rightarrow> error + decision" where
  "acceptance_rule peer_market_cap target_market_cap tolerance keyword_min_threshold
       keyword_max_threshold match_percentage =
     (case (if truthy peer_market_cap
            then (case (peer_market_cap, target_market_cap) of
                    (Some p, Some t) \<Rightarrow>
                      if t = 0 then Inl ZeroDivisionError
                      else Inr (\<bar>p - t\<bar> / t \<le> tolerance \<and>
                                keyword_min_threshold \<le> match_percentage \<and>
                                match_percentage \<le> keyword_max_threshold)
                  | _ \<Rightarrow> Inl TypeError)
            else Inr False) of
        Inl e \<Rightarrow> Inl e
      | Inr True \<Rightarrow> Inr Primary
      | Inr False \<Rightarrow>
          if keyword_min_threshold \<le> match_percentage \<and> match_percentage \<le> keyword_max_threshold
          then Inr Fallback else Inr Rejected)"

text \<open>The loop of lines 87-111; \<open>comparables\<close> is the list appended to.\<close>

fun screen_peers ::
  "provider \<Rightarrow> real option \<Rightarrow> string list \<Rightarrow> real \<Rightarrow> real \<Rightarrow> real \<Rightarrow>
   string list \<Rightarrow> string list \<Rightarrow> string list io" where
  "screen_peers prov target_market_cap target_keywords tolerance kmin kmax comparables [] =
     ([], Inr comparables)"
| "screen_peers prov target_market_cap target_keywords tolerance kmin kmax comparables
       (peer # peers) =
     io_bind (fetch_metrics_and_description prov (Some peer)) (\<lambda>peer_metrics.
     io_bind (io_lift (extract_keywords (Description peer_metrics) (CompanyName peer_metrics)))
       (\<lambda>peer_keywords.
     io_bind (io_print (CheckingPeer peer (MarketCap peer_metrics) (Industry peer_metrics)))
       (\<lambda>_.
     io_bind (io_lift (keyword_match_percentage target_keywords peer_keywords))
       (\<lambda>match_percentage.
     io_bind (io_print (MatchPercentage peer match_percentage)) (\<lambda>_.
     io_bind (io_lift (acceptance_rule (MarketCap peer_metrics) target_market_cap tolerance
                         kmin kmax match_percentage)) (\<lambda>d.
       case d of
         Primary \<Rightarrow>
           screen_peers prov target_market_cap target_keywords tolerance kmin kmax
             (comparables @ [peer]) peers
       | Fallback \<Rightarrow>
           io_bind (io_print (AddedOnKeywordsAlone peer)) (\<lambda>_.
             screen_peers prov target_market_cap target_keywords tolerance kmin kmax
               (comparables @ [peer]) peers)
       | Rejected \<Rightarrow>
           screen_peers prov target_market_cap target_keywords tolerance kmin kmax
             comparables peers))))))"

definition find_comparables ::
  "provider \<Rightarrow> metrics \<Rightarrow> string list \<Rightarrow> real \<Rightarrow> real \<Rightarrow> real \<Rightarrow> string list io" where
  "find_comparables prov target_metrics peer_companies tolerance keyword_min_threshold
       keyword_max_threshold =
     io_bind (io_lift (extract_keywords (Description target_metrics)
                         (CompanyName target_metrics))) (\<lambda>target_keywords.
     io_bind (io_print (TargetKeywords target_keywords)) (\<lambda>_.
       screen_peers prov (MarketCap target_metrics) target_keywords tolerance
         keyword_min_threshold keyword_max_threshold [] peer_companies))"

subsection \<open>\<^verbatim>\<open>comparable_company_analysis\<close>, lines 116-168\<close>

text \<open>
  The dictionary comprehension of line 121: one fetch for each listed ticker, a ticker
  listed twice keeps its first position in the dictionary.
\<close>

fun fetch_comparables ::
  "provider \<Rightarrow> (string \<times> metrics) list \<Rightarrow> string list \<Rightarrow> (string \<times> metrics) list io" where
  "fetch_comparables prov comparable_metrics [] = ([], Inr comparable_metrics)"
| "fetch_comparables prov comparable_metrics (ticker # tickers) =
     io_bind (fetch_metrics_and_description prov (Some ticker)) (\<lambda>m.
       fetch_comparables prov (AList.update ticker m comparable_metrics) tickers)"

text \<open>Lines 129-130 and 133-135: what one comparable adds to each sample, if anything.\<close>

definition pe_ratio :: "metrics \<Rightarrow> real option" where
  "pe_ratio m =
     (case (Price m, Earnings m) of
        (Some price, Some earnings) \<Rightarrow>
          if price \<noteq> 0 \<and> earnings \<noteq> 0 \<and> earnings > 0 then Some (price / earnings) else None
      | _ \<Rightarrow> None)"

definition ev_ebitda_ratio :: "metrics \<Rightarrow> real option" where
  "ev_ebitda_ratio m =
     (case (Ebitda m, MarketCap m) of
        (Some e, Some enterprise_value) \<Rightarrow>
          if e \<noteq> 0 \<and> e > 0 \<and> enterprise_value \<noteq> 0 then Some (enterprise_value / e) else None
      | _ \<Rightarrow> None)"

text \<open>
  \<^verbatim>\<open>pd.Series(xs).median()\<close> of a non-empty list of numbers: the middle value of the sorted
  sample, or the mean of the two middle values.
\<close>

definition median :: "real list \<Rightarrow> real" where
  "median xs =
     (let s = sort xs; n = length s in
      if odd n then s ! (n div 2) else (s ! (n div 2 - 1) + s ! (n div 2)) / 2)"

definition median_opt :: "real list \<Rightarrow> real option" where
  "median_opt ratios = (if ratios = [] then None else Some (median ratios))"

text \<open>Lines 155-158: the entry \<^verbatim>\<open>'EV/EBITDA'\<close> of \<^verbatim>\<open>fair_values\<close>, \<open>None\<close> when no entry is made.\<close>

definition fair_value_ev_ebitda :: "metrics \<Rightarrow> real option \<Rightarrow> real option" where
  "fair_value_ev_ebitda target_metrics median_ev_ebitda =
     (case (Ebitda target_metrics, median_ev_ebitda, SharesOutstanding target_metrics) of
        (Some e, Some m, Some shares) \<Rightarrow>
          if e \<noteq> 0 \<and> m \<noteq> 0 \<and> shares \<noteq> 0 then Some (m * e / shares) else None
      | _ \<Rightarrow> None)"

text \<open>Lines 161-166: the entry \<^verbatim>\<open>'P/E'\<close>, a number or the sentinel string.\<close>

definition fair_value_pe :: "metrics \<Rightarrow> real option \<Rightarrow> cell" where
  "fair_value_pe target_metrics median_pe =
     (case (Earnings target_metrics, median_pe, SharesOutstanding target_metrics) of
        (Some earnings, Some m, Some shares) \<Rightarrow>
          if earnings \<noteq> 0 \<and> earnings > 0 \<and> m \<noteq> 0 \<and> shares \<noteq> 0
          then Num (m * earnings / shares) else Str ''N/A (Negative Earnings)''
      | _ \<Rightarrow> Str ''N/A (Negative Earnings)'')"

text \<open>The dictionary \<^verbatim>\<open>fair_values\<close>, in insertion order.\<close>

definition estimate_fair_values ::
  "metrics \<Rightarrow> real option \<Rightarrow> real option \<Rightarrow> (string \<times> cell) list" where
  "estimate_fair_values target_metrics median_pe median_ev_ebitda =
     (case fair_value_ev_ebitda target_metrics median_ev_ebitda of
        Some v \<Rightarrow> [(''EV/EBITDA'', Num v)]
      | None \<Rightarrow> [])
     @ [(''P/E'', fair_value_pe target_metrics median_pe)]"

definition comparable_company_analysis ::
  "provider \<Rightarrow> string \<Rightarrow> string list \<Rightarrow> ((string \<times> cell) list \<times> metrics) io" where
  "comparable_company_analysis prov target_ticker comparables =
     io_bind (fetch_metrics_and_description prov (Some target_ticker)) (\<lambda>target_metrics.
     io_bind (fetch_comparables prov [] comparables) (\<lambda>comparable_metrics.
       (let pe_ratios = List.map_filter pe_ratio (map snd comparable_metrics);
            ev_ebitda_ratios = List.map_filter ev_ebitda_ratio (map snd comparable_metrics);
            median_pe = median_opt pe_ratios;
            median_ev_ebitda = median_opt ev_ebitda_ratios
        in ([Print (ComparablePE pe_ratios), Print (ComparableEV ev_ebitda_ratios),
             Print (Medians median_pe median_ev_ebitda)],
            Inr (estimate_fair_values target_metrics median_pe median_ev_ebitda,
                 target_metrics)))))"

subsection \<open>\<^verbatim>\<open>append_to_excel\<close>, lines 171-188\<close>

text \<open>
  The store is the table in the file as \<^verbatim>\<open>to_excel\<close> wrote it, \<open>None\<close> while the file does
  not exist; a null cell is an empty cell of the sheet.
\<close>

type_synonym store = "row list option"

text \<open>
  \<^verbatim>\<open>pd.read_excel(file_name)\<close> is a call into pandas, with its defaults
  (\<^verbatim>\<open>keep_default_na=True\<close>, no \<^verbatim>\<open>na_values\<close>). As the pandas documentation of \<^verbatim>\<open>read_excel\<close>
  has it, a text cell that is one of the default NA markers (the empty text among them) is
  read as NaN, here \<open>Null\<close>; numbers and empty cells are read as they are. Only this NA
  parsing of the reader is modelled.
\<close>

definition NA_STRINGS :: "string list" where
  "NA_STRINGS =
    [[], ''#N/A'', ''#N/A N/A'', ''#NA'', ''-1.#IND'', ''-1.#QNAN'', ''-NaN'', ''-nan'',
     ''1.#IND'', ''1.#QNAN'', ''<NA>'', ''N/A'', ''NA'', ''NULL'', ''NaN'', ''None'', ''n/a'',
     ''nan'', ''null'']"

definition read_cell :: "cell \<Rightarrow> cell" where
  "read_cell c = (case c of Str s \<Rightarrow> if s \<in> set NA_STRINGS then Null else Str s | _ \<Rightarrow> c)"

definition read_excel :: "row list \<Rightarrow> row list" where
  "read_excel rows =
     map (\<lambda>r. \<lparr>Stock = read_cell (Stock r), Metric = read_cell (Metric r),
                Value = read_cell (Value r)\<rparr>) rows"

text \<open>\<^verbatim>\<open>dropna(how='all')\<close> drops the rows of the new batch in which every field is null.\<close>

definition all_null :: "row \<Rightarrow> bool" where
  "all_null r = (Stock r = Null \<and> Metric r = Null \<and> Value r = Null)"

definition append_to_excel :: "row list \<Rightarrow> store \<Rightarrow> event list \<times> store" where
  "append_to_excel data file =
     (let df = (case file of Some rows \<Rightarrow> read_excel rows | None \<Rightarrow> []);
          new_data = filter (\<lambda>r. \<not> all_null r) data
      in ([Print DataAppended], Some (df @ new_data)))"

subsection \<open>\<^verbatim>\<open>search_stock\<close>, lines 20-34\<close>

text \<open>\<^verbatim>\<open>str.strip()\<close>: whitespace removed at both ends.\<close>

definition strip :: "string \<Rightarrow> string" where
  "strip s = rev (dropWhile is_space (rev (dropWhile is_space s)))"

text \<open>
  Everything is inside \<^verbatim>\<open>try\<close>: a provider failure and an end of input at the prompt are
  caught, reported, and give \<^verbatim>\<open>None\<close>. Line 24 tests that the key \<^verbatim>\<open>shortName\<close> is there,
  whatever its value; \<open>name\<close> is that value, printed as it is. The result comes with the
  input lines left.
\<close>

definition search_stock ::
  "provider \<Rightarrow> string \<Rightarrow> string list \<Rightarrow> (event list \<times> string option) \<times> string list" where
  "search_stock prov stock_input stdin =
     (case prov (Some stock_input) of
        Inl e \<Rightarrow>
          (([Lookup (Some stock_input), Print (ErrorFetching stock_input e)], None), stdin)
      | Inr stock \<Rightarrow>
          (case shortName stock of
             None \<Rightarrow>
               (([Lookup (Some stock_input), Print (CouldNotRetrieve stock_input)], None), stdin)
           | Some name \<Rightarrow>
               (case stdin of
                  [] \<Rightarrow>
                    (([Lookup (Some stock_input), Print (FoundStock name stock_input),
                       Print IsThisCorrect, Print (ErrorFetching stock_input EOFError)], None),
                     [])
                | answer # rest \<Rightarrow>
                    (([Lookup (Some stock_input), Print (FoundStock name stock_input),
                       Print IsThisCorrect],
                      if lower (strip answer) = ''y'' then Some stock_input else None),
                     rest))))"

subsection \<open>\<^verbatim>\<open>main\<close>, lines 191-241\<close>

definition peer_companies :: "string list" where
  "peer_companies = [''ADM'', ''BG'', ''INGR'', ''LANC'', ''HRL'']"

text \<open>Lines 223-229: the two percentage differences, each printed under its own condition.\<close>

definition difference_report :: "(string \<times> cell) list \<Rightarrow> metrics \<Rightarrow> event list" where
  "difference_report fair_values target_metrics =
     (case (map_of fair_values ''EV/EBITDA'', Price target_metrics) of
        (Some (Num v), Some price) \<Rightarrow>
          if v \<noteq> 0 \<and> price \<noteq> 0
          then [Print (EvEbitdaDifference v ((v - price) / price * 100))] else []
      | _ \<Rightarrow> [])
     @ (case (map_of fair_values ''P/E'', Price target_metrics) of
          (Some (Num v), Some price) \<Rightarrow>
            if price \<noteq> 0 then [Print (PeDifference v ((v - price) / price * 100))] else []
        | _ \<Rightarrow> [])"

text \<open>Lines 232-236: the three rows handed to \<^verbatim>\<open>append_to_excel\<close>.\<close>

definition data_to_save :: "string \<Rightarrow> (string \<times> cell) list \<Rightarrow> metrics \<Rightarrow> row list" where
  "data_to_save target_ticker fair_values target_metrics =
     [\<lparr>Stock = Str target_ticker, Metric = Str ''EV/EBITDA Fair Value'',
       Value = (case map_of fair_values ''EV/EBITDA'' of Some v \<Rightarrow> v | None \<Rightarrow> Str ''N/A'')\<rparr>,
      \<lparr>Stock = Str target_ticker, Metric = Str ''P/E Fair Value'',
       Value = (case map_of fair_values ''P/E'' of Some v \<Rightarrow> v | None \<Rightarrow> Str ''N/A'')\<rparr>,
      \<lparr>Stock = Str target_ticker, Metric = Str ''Current Price'',
       Value = (case Price target_metrics of Some price \<Rightarrow> Num price | None \<Rightarrow> Null)\<rparr>]"

text \<open>
  The target's metrics are fetched and the peers screened before \<^verbatim>\<open>target_ticker\<close> is
  tested (line 209); an exception outside \<^verbatim>\<open>search_stock\<close> ends the run. The result is
  the events of the run, how it ended, and the store after it.
\<close>

definition main :: "provider \<Rightarrow> string list \<Rightarrow> store \<Rightarrow> unit io \<times> store" where
  "main prov stdin file =
     (case stdin of
        [] \<Rightarrow> (([Print EnterTicker], Inl EOFError), file)
      | line # rest \<Rightarrow>
          (case search_stock prov (strip line) rest of
             ((ev1, target_ticker), _) \<Rightarrow>
               (case io_bind (fetch_metrics_and_description prov target_ticker)
                       (\<lambda>target_metrics.
                          find_comparables prov target_metrics peer_companies 0.75 11 19) of
                  (ev2, Inl e) \<Rightarrow> ((Print EnterTicker # ev1 @ ev2, Inl e), file)
                | (ev2, Inr comparables) \<Rightarrow>
                    if comparables = []
                    then ((Print EnterTicker # ev1 @ ev2 @
                             [Print (NoSuitableComparables target_ticker)], Inr ()), file)
                    else (case (if target_ticker = Some [] then None else target_ticker) of
                            None \<Rightarrow>
                              ((Print EnterTicker # ev1 @ ev2 @ [Print NoValidStock], Inr ()),
                               file)
                          | Some ticker \<Rightarrow>
                              (case comparable_company_analysis prov ticker comparables of
                                 (ev3, Inl e) \<Rightarrow>
                                   ((Print EnterTicker # ev1 @ ev2 @ ev3, Inl e), file)
                               | (ev3, Inr (fair_values, target_metrics)) \<Rightarrow>
                                   (case append_to_excel
                                           (data_to_save ticker fair_values target_metrics)
                                           file of
                                      (ev4, file') \<Rightarrow>
                                        ((Print EnterTicker # ev1 @ ev2 @ ev3 @
                                            [Print (TargetMetricsListing ticker target_metrics),
                                             Print (FairValuesListing fair_values)] @
                                            difference_report fair_values target_metrics @ ev4,
                                          Inr ()), file')))))))"

subsection \<open>Example data\<close>

text \<open>A target record with the three fields the fair values read.\<close>

definition target_with :: "real option \<Rightarrow> real option \<Rightarrow> real option \<Rightarrow> metrics" where
  "target_with e earnings shares =
     \<lparr>Price = None, Earnings = earnings, Ebitda = e, Revenue = None, MarketCap = None,
      SharesOutstanding = shares, Industry = None, Description = None, CompanyName = None\<rparr>"

text \<open>
  A provider that knows the target TGT and the peer ADM, and fails on every other lookup
  (the other four peers of \<^verbatim>\<open>main\<close>, and \<^verbatim>\<open>None\<close>).
\<close>

definition example_info :: "string \<Rightarrow> string \<Rightarrow> real \<Rightarrow> info" where
  "example_info name summary cap =
     \<lparr>shortName = Some (Some name), currentPrice = Some 10, netIncomeToCommon = Some 2,
      ebitda = Some 4, totalRevenue = None, marketCap = Some cap, sharesOutstanding = Some 5,
      industry = None, longBusinessSummary = Some summary\<rparr>"

definition example_provider :: provider where
  "example_provider ticker =
     (if ticker = Some ''TGT''
      then Inr (example_info ''Target''
                  ''alpha bravo charlie delta echoes foxtrot golfing hotel'' 100)
      else if ticker = Some ''ADM'' then Inr (example_info ''Archer'' ''alpha zulu'' 1000)
      else Inl ProviderError)"

definition example_target :: metrics where
  "example_target =
     \<lparr>Price = Some 10, Earnings = Some 2, Ebitda = Some 4, Revenue = None,
      MarketCap = Some 100, SharesOutstanding = Some 5, Industry = None,
      Description = Some ''alpha bravo charlie delta echoes foxtrot golfing hotel'',
      CompanyName = Some ''Target''\<rparr>"

definition example_row :: "string \<Rightarrow> real \<Rightarrow> row" where
  "example_row ticker v = \<lparr>Stock = Str ticker, Metric = Str ''Current Price'', Value = Num v\<rparr>"

definition null_row :: row where
  "null_row = \<lparr>Stock = Null, Metric = Null, Value = Null\<rparr>"

text \<open>
  The three rows \<^verbatim>\<open>main\<close> saves for TGT when the comparables give no median at all: no
  EV/EBITDA entry, so line 233 writes the text N/A.
\<close>

definition first_run_rows :: "row list" where
  "first_run_rows =
     data_to_save ''TGT'' (estimate_fair_values example_target None None) example_target"

section \<open>Properties\<close>

subsection \<open>The acceptance rule of the screener\<close>

text \<open>
  C1, as stated: for every target and every peer the two-branch rule accepts exactly when
  the match percentage is in the band. It fails where the rule cannot be evaluated: for a
  peer with a market cap and a match of 15 percent, inside the band 11..19, a target
  without a market cap makes the rule raise TypeError and a target whose market cap is
  zero makes it raise ZeroDivisionError. Nothing is accepted.
\<close>

theorem acceptance_rule_raises:
  "acceptance_rule (Some 5) None (3 / 4) 11 19 15 = Inl TypeError \<and>
   acceptance_rule (Some 5) (Some 0) (3 / 4) 11 19 15 = Inl ZeroDivisionError \<and>
   (11::real) \<le> 15 \<and> (15::real) \<le> 19"
  by (simp add: acceptance_rule_def truthy_def)

text \<open>
  C1, amended: whenever the peer has no (or a zero) market cap, or the target's market cap is
  present and not zero, the rule returns a decision, and the peer is accepted exactly
  when the match percentage lies in [keyword_min_threshold, keyword_max_threshold]; the
  market-cap tolerance only selects which of the two branches accepts.
\<close>

theorem acceptance_rule_is_band:
  "\<not> truthy peer_market_cap \<or> truthy target_market_cap \<Longrightarrow>
     (\<exists>d. acceptance_rule peer_market_cap target_market_cap tolerance kmin kmax
             match_percentage = Inr d \<and>
          (d \<noteq> Rejected \<longleftrightarrow> kmin \<le> match_percentage \<and> match_percentage \<le> kmax))"
  by (auto simp: acceptance_rule_def truthy_def split: option.splits bool.splits)

text \<open>
  The two examples of the claim: 15 percent with ten times the target's market cap is
  accepted, 25 percent with the target's own market cap is rejected.
\<close>

theorem acceptance_rule_is_band_witness:
  "(\<exists>d. acceptance_rule (Some 1000) (Some 100) (3 / 4) 11 19 15 = Inr d \<and> d \<noteq> Rejected) \<and>
   acceptance_rule (Some 100) (Some 100) (3 / 4) 11 19 25 = Inr Rejected"
  using acceptance_rule_is_band [of "Some 1000" "Some 100" "3 / 4" 11 19 15]
    acceptance_rule_is_band [of "Some 100" "Some 100" "3 / 4" 11 19 25]
  by (auto simp: truthy_def)

subsection \<open>The keyword match percentage\<close>





subsection \<open>Keyword extraction\<close>

text \<open>
  C2: for a multi-word company name such as "Acme Corp", neither "acme" nor "corp" is a
  token of the output. The source compares every single word with the whole lower-cased
  name (line 46), so for the description "Acme Corp makes widgets" both words of the name
  stay in the result.
\<close>

theorem extract_keywords_keeps_name_words:
  "extract_keywords (Some ''Acme Corp makes widgets'') (Some ''Acme Corp'') =
     Inr [''acme'', ''corp'', ''makes'', ''widgets'']"
  by code_simp

text \<open>
  The same for every name with a whitespace character in it: no word of a description is
  ever equal to such a name, and the test on the name removes nothing.
\<close>

lemma is_space_lower_char: "is_space (lower_char c) = is_space c"
  by (auto simp: is_space_def lower_char_def Let_def)

lemma split_from_no_space:
  "w \<in> set (split_from cur s) \<Longrightarrow> list_all (\<lambda>c. \<not> is_space c) cur \<Longrightarrow>
     list_all (\<lambda>c. \<not> is_space c) w"
  by (induction cur s rule: split_from.induct) (auto split: if_splits)

lemma description_words_no_space:
  "w \<in> set (description_words d) \<Longrightarrow> list_all (\<lambda>c. \<not> is_space c) w"
  using split_from_no_space [of w "[]"] by (simp add: description_words_def split_def)

lemma name_with_space_never_removed:
  assumes "list_ex is_space name"
  shows "extract_keywords (Some d) (Some name) =
     Inr (filter (\<lambda>word. word \<notin> set STOPWORDS \<and> length word > 3) (description_words d))"
proof -
  have "list_ex is_space (lower name)"
    using assms by (simp add: lower_def list_ex_iff is_space_lower_char)
  then have "w \<in> set (description_words d) \<Longrightarrow> w \<noteq> lower name" for w
    using description_words_no_space [of w d] by (auto simp: list_ex_iff list_all_iff)
  then show ?thesis
    by (auto simp: extract_keywords_def intro!: filter_cong)
qed

lemma count_list_filter:
  "count_list (filter P xs) w = (if P w then count_list xs w else 0)"
  by (induction xs) auto

text \<open>
  C8, as stated: no token occurs more than once in the output. The result is the list of
  the comprehension of lines 44-47, and a word that the description repeats is repeated
  in it.
\<close>

theorem extract_keywords_repeats_word:
  "extract_keywords (Some ''Fresh food, frozen food.'') (Some ''Acme'') =
     Inr [''fresh'', ''food'', ''frozen'', ''food''] \<and>
   \<not> distinct [''fresh'', ''food'', ''frozen'', ''food'']"
  by code_simp

text \<open>
  C8, amended: for every description and company name the keyword extraction result is a
  list in which a token occurs as often as it occurs among the words of the cleaned,
  lower-cased description (and not at all when it is a stopword, the lower-cased company
  name, or shorter than four characters); duplicates are kept.
\<close>

theorem extract_keywords_counts:
  "\<exists>ks. extract_keywords (Some d) (Some name) = Inr ks \<and>
     (\<forall>w. count_list ks w =
        (if w \<notin> set STOPWORDS \<and> w \<noteq> lower name \<and> length w > 3
         then count_list (description_words d) w else 0))"
  by (simp add: extract_keywords_def count_list_filter)

theorem extract_keywords_counts_witness:
  "\<exists>ks. extract_keywords (Some ''Fresh food, frozen food.'') (Some ''Acme'') = Inr ks \<and>
     count_list ks ''food'' = 2 \<and> count_list ks ''acme'' = 0"
proof -
  have w: "description_words ''Fresh food, frozen food.'' = [''fresh'', ''food'', ''frozen'', ''food'']"
    by code_simp
  have s: "''food'' \<notin> set STOPWORDS" "lower ''Acme'' = ''acme''"
    by code_simp+
  from extract_keywords_counts [of "''Fresh food, frozen food.''" "''Acme''"]
  obtain ks where ks: "extract_keywords (Some ''Fresh food, frozen food.'') (Some ''Acme'') = Inr ks"
    and c: "\<And>w. count_list ks w =
        (if w \<notin> set STOPWORDS \<and> w \<noteq> lower ''Acme'' \<and> length w > 3
         then count_list (description_words ''Fresh food, frozen food.'') w else 0)"
    by blast
  have "count_list ks ''food'' = 2"
    using c [of "''food''"] by (simp add: w s)
  moreover have "count_list ks ''acme'' = 0"
    using c [of "''acme''"] by (simp add: w s)
  ultimately show ?thesis
    using ks by blast
qed

subsection \<open>Sequencing\<close>

lemma snd_io_bind:
  "snd (io_bind m f) = (case snd m of Inl e \<Rightarrow> Inl e | Inr x \<Rightarrow> snd (f x))"
  by (cases m) (auto simp: io_bind_def split: sum.splits prod.splits)

lemma fst_io_bind:
  "fst (io_bind m f) = (case snd m of Inl e \<Rightarrow> fst m | Inr x \<Rightarrow> fst m @ fst (f x))"
  by (cases m) (auto simp: io_bind_def split: sum.splits prod.splits)

lemma snd_io_print: "snd (io_print msg) = Inr ()"
  by (simp add: io_print_def)

lemma snd_io_lift: "snd (io_lift r) = r"
  by (simp add: io_lift_def)

lemma snd_fetch: "snd (fetch_metrics_and_description prov t) = Inl e \<longleftrightarrow> prov t = Inl e"
  by (simp add: fetch_metrics_and_description_def split: sum.splits)

lemma fst_fetch: "fst (fetch_metrics_and_description prov t) = [Lookup t]"
  by (simp add: fetch_metrics_and_description_def)

subsection \<open>The valuation engine\<close>

text \<open>
  What \<^verbatim>\<open>comparable_company_analysis\<close> returns, when it returns: the fair values estimated
  from the target's metrics and the medians of the two samples of the comparables.
\<close>

lemma comparable_company_analysis_result:
  assumes "snd (comparable_company_analysis prov target_ticker comparables) = Inr (fv, tm)"
  shows "\<exists>cm. snd (fetch_metrics_and_description prov (Some target_ticker)) = Inr tm \<and>
     snd (fetch_comparables prov [] comparables) = Inr cm \<and>
     fv = estimate_fair_values tm
            (median_opt (List.map_filter pe_ratio (map snd cm)))
            (median_opt (List.map_filter ev_ebitda_ratio (map snd cm)))"
  using assms
  by (auto simp: comparable_company_analysis_def snd_io_bind Let_def split: sum.splits)

lemma median_examples: "median [8, 10, 12] = 10 \<and> median [8, 10] = 9"
  by code_simp

lemma map_of_estimate_ev:
  "map_of (estimate_fair_values tm mpe mev) ''EV/EBITDA'' =
     map_option Num (fair_value_ev_ebitda tm mev)"
  by (simp add: estimate_fair_values_def split: option.splits)

lemma map_of_estimate_pe:
  "map_of (estimate_fair_values tm mpe mev) ''P/E'' = Some (fair_value_pe tm mpe)"
  by (simp add: estimate_fair_values_def split: option.splits)

text \<open>
  C6, as stated: whenever target Ebitda, the median and SharesOutstanding are all present,
  the EV/EBITDA fair value is (median * Ebitda) / SharesOutstanding. A target Ebitda that
  is present and 0, with median 8 and 500,000 shares: the guard of line 155 is false and
  \<^verbatim>\<open>fair_values\<close> gets no EV/EBITDA entry, where the formula gives 0.
\<close>

theorem ev_ebitda_skipped_for_zero_ebitda:
  "map_of (estimate_fair_values (target_with (Some 0) None (Some 500000)) None (Some 8))
     ''EV/EBITDA'' = None"
  by (simp add: map_of_estimate_ev fair_value_ev_ebitda_def target_with_def)

text \<open>
  C6, amended: whenever target Ebitda, the median EV/EBITDA multiple and target
  SharesOutstanding are all present and not zero, the EV/EBITDA fair value per share is
  (median * Ebitda) / SharesOutstanding, and an EV/EBITDA fair value is computed only
  under that condition.
\<close>

theorem ev_ebitda_fair_value:
  "(Ebitda tm = Some e \<and> median_ev_ebitda = Some m \<and> SharesOutstanding tm = Some shares \<and>
    e \<noteq> 0 \<and> m \<noteq> 0 \<and> shares \<noteq> 0 \<longrightarrow>
      map_of (estimate_fair_values tm median_pe median_ev_ebitda) ''EV/EBITDA'' =
        Some (Num (m * e / shares))) \<and>
   (map_of (estimate_fair_values tm median_pe median_ev_ebitda) ''EV/EBITDA'' \<noteq> None \<longrightarrow>
      truthy (Ebitda tm) \<and> truthy median_ev_ebitda \<and> truthy (SharesOutstanding tm))"
  by (auto simp: map_of_estimate_ev fair_value_ev_ebitda_def truthy_def split: option.splits)

text \<open>The example of the claim: median 8, Ebitda 1,000,000 and 500,000 shares give 16.\<close>

theorem ev_ebitda_fair_value_witness:
  "map_of (estimate_fair_values (target_with (Some 1000000) None (Some 500000)) None (Some 8))
     ''EV/EBITDA'' = Some (Num 16)"
  using ev_ebitda_fair_value [of "target_with (Some 1000000) None (Some 500000)" 1000000
      "Some 8" 8 500000 None]
  by (simp add: target_with_def)

text \<open>
  C7, as stated: with target Earnings > 0 and the median P/E and SharesOutstanding present,
  the P/E fair value is (median * Earnings) / SharesOutstanding. With Earnings 5, median 10
  and a SharesOutstanding that is present and 0, the guard of line 161 is false and the
  estimate is the sentinel.
\<close>

theorem pe_sentinel_for_zero_shares:
  "map_of (estimate_fair_values (target_with None (Some 5) (Some 0)) (Some 10) None) ''P/E'' =
     Some (Str ''N/A (Negative Earnings)'')"
  by (simp add: map_of_estimate_pe fair_value_pe_def target_with_def)

text \<open>
  C7, amended: the P/E fair value is the sentinel "N/A (Negative Earnings)" whenever target
  Earnings is at most 0, whatever the comparables give; when target Earnings > 0 and the
  median P/E and SharesOutstanding are present and not zero, it is
  (median P/E * Earnings) / SharesOutstanding.
\<close>

theorem pe_fair_value:
  "(Earnings tm = Some earnings \<and> earnings \<le> 0 \<longrightarrow>
      map_of (estimate_fair_values tm median_pe median_ev_ebitda) ''P/E'' =
        Some (Str ''N/A (Negative Earnings)'')) \<and>
   (Earnings tm = Some earnings \<and> earnings > 0 \<and> median_pe = Some m \<and> m \<noteq> 0 \<and>
    SharesOutstanding tm = Some shares \<and> shares \<noteq> 0 \<longrightarrow>
      map_of (estimate_fair_values tm median_pe median_ev_ebitda) ''P/E'' =
        Some (Num (m * earnings / shares)))"
  by (auto simp: map_of_estimate_pe fair_value_pe_def split: option.splits)

theorem pe_fair_value_witness:
  "map_of (estimate_fair_values (target_with None (Some (- 5)) (Some 10)) (Some 11) None) ''P/E'' =
     Some (Str ''N/A (Negative Earnings)'') \<and>
   map_of (estimate_fair_values (target_with None (Some 50000000) (Some 10000000)) (Some 11) None)
     ''P/E'' = Some (Num 55)"
  using pe_fair_value [of "target_with None (Some (- 5)) (Some 10)" "- 5" "Some 11" None 11 10]
    pe_fair_value [of "target_with None (Some 50000000) (Some 10000000)" 50000000 "Some 11" None
      11 10000000]
  by (simp add: target_with_def)



subsection \<open>Persistence\<close>

lemma read_excel_length: "length (read_excel rows) = length rows"
  by (simp add: read_excel_def)

text \<open>
  What holds of every call: the store afterwards is the prior rows as the reader returns
  them, one for one and in order, followed by the rows of the batch that are not null in
  every field.
\<close>

lemma append_to_excel_result:
  "snd (append_to_excel data file) =
     Some ((case file of None \<Rightarrow> [] | Some rows \<Rightarrow> read_excel rows) @
           filter (\<lambda>r. \<not> all_null r) data)"
  by (simp add: append_to_excel_def)

text \<open>
  C9: the append leaves every prior row of the store unchanged, and drops the rows of the
  new batch that are null in every field. The first run for TGT, with no EV/EBITDA
  estimate, stores the text N/A as the value of its first row. The next append reads the
  store back, the reader takes that text for a missing value, and the store is rewritten
  with the value of that prior row empty. The other two prior rows and the new row are
  as they were.
\<close>

theorem append_to_excel_changes_prior_row:
  "snd (append_to_excel first_run_rows None) =
     Some [\<lparr>Stock = Str ''TGT'', Metric = Str ''EV/EBITDA Fair Value'', Value = Str ''N/A''\<rparr>,
           \<lparr>Stock = Str ''TGT'', Metric = Str ''P/E Fair Value'',
            Value = Str ''N/A (Negative Earnings)''\<rparr>,
           \<lparr>Stock = Str ''TGT'', Metric = Str ''Current Price'', Value = Num 10\<rparr>] \<and>
   snd (append_to_excel [null_row, example_row ''ADM'' 7]
          (snd (append_to_excel first_run_rows None))) =
     Some [\<lparr>Stock = Str ''TGT'', Metric = Str ''EV/EBITDA Fair Value'', Value = Null\<rparr>,
           \<lparr>Stock = Str ''TGT'', Metric = Str ''P/E Fair Value'',
            Value = Str ''N/A (Negative Earnings)''\<rparr>,
           \<lparr>Stock = Str ''TGT'', Metric = Str ''Current Price'', Value = Num 10\<rparr>,
           example_row ''ADM'' 7]"
  by code_simp

subsection \<open>Provider failures\<close>

lemma snd_screen_peers_append:
  "snd (screen_peers prov cap kws tol kmin kmax comparables (xs @ ys)) =
     (case snd (screen_peers prov cap kws tol kmin kmax comparables xs) of
        Inl e \<Rightarrow> Inl e
      | Inr accepted \<Rightarrow> snd (screen_peers prov cap kws tol kmin kmax accepted ys))"
proof (induction xs arbitrary: comparables)
  case Nil
  show ?case by simp
next
  case (Cons p ps)
  show ?case
    by (simp add: Cons.IH snd_io_bind snd_io_print snd_io_lift
        split: sum.splits decision.splits)
qed

lemma snd_screen_peers_failing:
  "prov (Some peer) = Inl e \<Longrightarrow>
     snd (screen_peers prov cap kws tol kmin kmax comparables (peer # rest)) = Inl e"
  by (simp add: snd_io_bind snd_fetch [THEN iffD2])

lemma snd_find_comparables:
  "snd (find_comparables prov tm peers tol kmin kmax) =
     (case extract_keywords (Description tm) (CompanyName tm) of
        Inl e \<Rightarrow> Inl e
      | Inr kws \<Rightarrow> snd (screen_peers prov (MarketCap tm) kws tol kmin kmax [] peers))"
  by (simp add: find_comparables_def snd_io_bind snd_io_print snd_io_lift split: sum.splits)

lemma find_comparables_failure:
  assumes "prov (Some peer) = Inl e"
  shows "snd (find_comparables prov tm (before @ peer # rest) tol kmin kmax) =
     (case snd (find_comparables prov tm before tol kmin kmax) of
        Inl e' \<Rightarrow> Inl e'
      | Inr accepted \<Rightarrow> Inl e)"
  using snd_screen_peers_failing [of prov peer e] assms
  by (simp add: snd_find_comparables snd_screen_peers_append split: sum.splits)

lemma main_error:
  "search_stock prov (strip line) rest = ((ev, tt), rest') \<Longrightarrow>
   snd (io_bind (fetch_metrics_and_description prov tt)
          (\<lambda>tm. find_comparables prov tm peer_companies 0.75 11 19)) = Inl e \<Longrightarrow>
   snd (fst (main prov (line # rest) file)) = Inl e \<and> snd (main prov (line # rest) file) = file"
  by (cases "io_bind (fetch_metrics_and_description prov tt)
          (\<lambda>tm. find_comparables prov tm peer_companies 0.75 11 19)")
     (simp add: main_def)

text \<open>
  With the example provider the peer ADM is accepted when screened alone; with the peer BG
  after it, whose lookup fails, the screening ends with the provider's error.
\<close>

lemma find_comparables_example:
  "snd (find_comparables example_provider example_target [''ADM''] (3 / 4) 11 19) =
     Inr [''ADM''] \<and>
   snd (find_comparables example_provider example_target [''ADM'', ''BG''] (3 / 4) 11 19) =
     Inl ProviderError"
  by code_simp

text \<open>
  C4: a provider failure on one peer is caught, that peer is left out and the screening of
  the others goes on with the partial result kept. The loop of \<^verbatim>\<open>find_comparables\<close> has no
  handler. When the lookup of a peer fails with \<open>e\<close> and the peers before it were screened
  with the result \<open>accepted\<close>, \<^verbatim>\<open>find_comparables\<close> raises \<open>e\<close> and \<open>accepted\<close> is lost, whatever
  peers follow; when the peers before it already raise, that earlier error comes out. So
  no list with a failing peer in it gives a result, and with such a peer among the peers
  of \<^verbatim>\<open>main\<close> the run ends with an error and the store as it was.
\<close>

theorem provider_failure_is_fatal:
  assumes "prov (Some peer) = Inl e"
  shows "(snd (find_comparables prov tm before tolerance kmin kmax) = Inr accepted \<longrightarrow>
            snd (find_comparables prov tm (before @ peer # rest) tolerance kmin kmax) = Inl e) \<and>
         (snd (find_comparables prov tm before tolerance kmin kmax) = Inl e' \<longrightarrow>
            snd (find_comparables prov tm (before @ peer # rest) tolerance kmin kmax) =
              Inl e') \<and>
         (peer \<in> set peer_companies \<longrightarrow>
            (\<exists>e''. snd (fst (main prov (line # stdin) file)) = Inl e'') \<and>
            snd (main prov (line # stdin) file) = file)"
proof -
  obtain ev tt rest' where s: "search_stock prov (strip line) stdin = ((ev, tt), rest')"
    by (metis prod.exhaust)
  have a: "snd (find_comparables prov tm (before @ peer # rest) tolerance kmin kmax) = Inl e"
    if "snd (find_comparables prov tm before tolerance kmin kmax) = Inr accepted"
    using that assms find_comparables_failure [of prov peer e tm before rest tolerance kmin kmax]
    by simp
  have b: "snd (find_comparables prov tm (before @ peer # rest) tolerance kmin kmax) = Inl e'"
    if "snd (find_comparables prov tm before tolerance kmin kmax) = Inl e'"
    using that assms find_comparables_failure [of prov peer e tm before rest tolerance kmin kmax]
    by simp
  have c: "(\<exists>e''. snd (fst (main prov (line # stdin) file)) = Inl e'') \<and>
      snd (main prov (line # stdin) file) = file" if mem: "peer \<in> set peer_companies"
  proof -
    obtain pre post where p: "peer_companies = pre @ peer # post"
      using split_list [OF mem] by blast
    have "\<exists>e''. snd (find_comparables prov m peer_companies 0.75 11 19) = Inl e''" for m
      unfolding p using assms find_comparables_failure [of prov peer e m pre post "0.75" 11 19]
      by (simp split: sum.splits)
    then have "\<exists>e''. snd (io_bind (fetch_metrics_and_description prov tt)
          (\<lambda>tm. find_comparables prov tm peer_companies 0.75 11 19)) = Inl e''"
      by (simp add: snd_io_bind split: sum.splits)
    then show ?thesis
      using main_error [OF s] by blast
  qed
  from a b c show ?thesis
    by blast
qed

theorem provider_failure_is_fatal_witness:
  "snd (find_comparables example_provider example_target [''ADM'', ''BG''] (3 / 4) 11 19) =
      Inl ProviderError \<and>
   (\<exists>e'. snd (fst (main example_provider [''TGT'', ''y''] None)) = Inl e') \<and>
   snd (main example_provider [''TGT'', ''y''] None) = None"
  using provider_failure_is_fatal [of example_provider "''BG''" ProviderError example_target
      "[''ADM'']" "3 / 4" 11 19 "[''ADM'']" "[]" TypeError "''TGT''" "[''y'']" None]
    find_comparables_example
  by (simp add: example_provider_def peer_companies_def)

subsection \<open>A declined confirmation\<close>

lemma events_after_fetch:
  "\<exists>tail. fst (io_bind (fetch_metrics_and_description prov t) f) = Lookup t # tail"
  by (simp add: fst_io_bind fst_fetch split: sum.splits)

lemma search_stock_rejects:
  "prov (Some stock_input) = Inr stock \<Longrightarrow> shortName stock = Some name \<Longrightarrow>
   lower (strip answer) \<noteq> ''y'' \<Longrightarrow>
     search_stock prov stock_input (answer # rest) =
       (([Lookup (Some stock_input), Print (FoundStock name stock_input), Print IsThisCorrect],
         None), rest)"
  by (simp add: search_stock_def)

text \<open>
  C5: after an answer other than "y" the ticker is rejected and nothing more is fetched,
  screened or valued. \<^verbatim>\<open>main\<close> tests \<^verbatim>\<open>target_ticker\<close> only at line 209: for every provider
  that knows the ticker and every answer that is not "y" (after \<^verbatim>\<open>strip\<close> and \<^verbatim>\<open>lower\<close>), the
  first thing the run does after the prompt is the lookup of the target's metrics for the
  ticker \<^verbatim>\<open>None\<close>, and the screening follows it. The store is never written. When that
  lookup fails, the run ends with its error, and "No valid stock selected." is not printed.
\<close>

theorem main_fetches_after_rejection:
  assumes "prov (Some (strip line)) = Inr stock" and "shortName stock = Some name"
    and "lower (strip answer) \<noteq> ''y''"
  shows "(\<exists>tail. fst (fst (main prov (line # answer # rest) file)) =
           [Print EnterTicker, Lookup (Some (strip line)), Print (FoundStock name (strip line)),
            Print IsThisCorrect, Lookup None] @ tail) \<and>
         snd (main prov (line # answer # rest) file) = file \<and>
         (prov None = Inl e \<longrightarrow>
            main prov (line # answer # rest) file =
              (([Print EnterTicker, Lookup (Some (strip line)),
                 Print (FoundStock name (strip line)), Print IsThisCorrect, Lookup None],
                Inl e), file))"
proof -
  have s: "search_stock prov (strip line) (answer # rest) =
       (([Lookup (Some (strip line)), Print (FoundStock name (strip line)), Print IsThisCorrect],
         None), rest)"
    using assms by (rule search_stock_rejects)
  obtain tail where t: "fst (io_bind (fetch_metrics_and_description prov None)
      (\<lambda>target_metrics. find_comparables prov target_metrics peer_companies 0.75 11 19)) =
      Lookup None # tail"
    using events_after_fetch by blast
  have a: "\<exists>tail. fst (fst (main prov (line # answer # rest) file)) =
           [Print EnterTicker, Lookup (Some (strip line)), Print (FoundStock name (strip line)),
            Print IsThisCorrect, Lookup None] @ tail"
    using t by (cases "io_bind (fetch_metrics_and_description prov None)
      (\<lambda>target_metrics. find_comparables prov target_metrics peer_companies 0.75 11 19)")
     (auto simp: main_def s split: sum.splits)
  have b: "snd (main prov (line # answer # rest) file) = file"
    by (cases "io_bind (fetch_metrics_and_description prov None)
      (\<lambda>target_metrics. find_comparables prov target_metrics peer_companies 0.75 11 19)")
     (auto simp: main_def s split: sum.splits)
  have c: "main prov (line # answer # rest) file =
              (([Print EnterTicker, Lookup (Some (strip line)),
                 Print (FoundStock name (strip line)), Print IsThisCorrect, Lookup None],
                Inl e), file)" if "prov None = Inl e"
    using that by (simp add: main_def s io_bind_def fetch_metrics_and_description_def)
  from a b c show ?thesis
    by blast
qed

text \<open>The run on the ticker TGT with the answer "n", on the example provider.\<close>

theorem main_fetches_after_rejection_witness:
  "main example_provider [''TGT'', ''n''] None =
     (([Print EnterTicker, Lookup (Some ''TGT''), Print (FoundStock (Some ''Target'') ''TGT''),
        Print IsThisCorrect, Lookup None], Inl ProviderError), None)"
proof -
  have s: "strip ''TGT'' = ''TGT''" "lower (strip ''n'') \<noteq> ''y''"
    by code_simp+
  have p: "example_provider (Some (strip ''TGT'')) =
      Inr (example_info ''Target'' ''alpha bravo charlie delta echoes foxtrot golfing hotel'' 100)"
    "example_provider None = Inl ProviderError"
    by (simp_all add: s example_provider_def)
  show ?thesis
    using main_fetches_after_rejection [of example_provider "''TGT''"
        "example_info ''Target'' ''alpha bravo charlie delta echoes foxtrot golfing hotel'' 100"
        "Some ''Target''" "''n''" "[]" None ProviderError] p s(2)
    by (simp add: s example_info_def)
qed

end
